theory Spec2Isabelle
  imports Complex_Main
begin

section \<open>The telemetry pipeline of the dam dashboard\<close>

text \<open>
  The functions verified here are the helpers of \<^verbatim>\<open>src/pages/DamDetail.tsx\<close>
  (\<^verbatim>\<open>parseDateTime\<close>, \<^verbatim>\<open>parseNumber\<close>, \<^verbatim>\<open>calculateAxisDomain\<close>,
  \<^verbatim>\<open>filteredData\<close>) and of \<^verbatim>\<open>src/components/dam/DamStatusCards.tsx\<close>
  (\<^verbatim>\<open>getAlertZone\<close>, \<^verbatim>\<open>calculateWaterLevelTrend\<close>). They are TypeScript, so
  their values are JavaScript values: a number is an IEEE double, a field of an untyped
  record may be absent, and a \<^verbatim>\<open>Date\<close> holds a time value that is a number or NaN.
\<close>

subsection \<open>JavaScript numbers\<close>

text \<open>
  A number is NaN, one of the two infinities, or a finite value. Finite values are kept
  as exact rationals: the rounding of doubles and the sign of zero are not modelled, so
  a result that the program rounds is here the exact quotient, and \<^verbatim>\<open>-0\<close> is \<open>0\<close>.
\<close>

datatype jsnum = NaN | NegInf | Fin rat | PosInf

fun isNaN :: "jsnum \<Rightarrow> bool" where
  "isNaN NaN = True"
| "isNaN _ = False"

fun isFinite :: "jsnum \<Rightarrow> bool" where
  "isFinite (Fin _) = True"
| "isFinite _ = False"

fun js_neg :: "jsnum \<Rightarrow> jsnum" where
  "js_neg NaN = NaN"
| "js_neg NegInf = PosInf"
| "js_neg PosInf = NegInf"
| "js_neg (Fin a) = Fin (- a)"

fun js_add :: "jsnum \<Rightarrow> jsnum \<Rightarrow> jsnum" where
  "js_add NaN _ = NaN"
| "js_add _ NaN = NaN"
| "js_add PosInf NegInf = NaN"
| "js_add NegInf PosInf = NaN"
| "js_add PosInf _ = PosInf"
| "js_add _ PosInf = PosInf"
| "js_add NegInf _ = NegInf"
| "js_add _ NegInf = NegInf"
| "js_add (Fin a) (Fin b) = Fin (a + b)"

definition js_sub :: "jsnum \<Rightarrow> jsnum \<Rightarrow> jsnum" where
  "js_sub a b = js_add a (js_neg b)"

text \<open>The sign of an infinite product or quotient; zero counts as positive zero.\<close>

definition signedInf :: "bool \<Rightarrow> jsnum" where
  "signedInf negative = (if negative then NegInf else PosInf)"

fun js_mul :: "jsnum \<Rightarrow> jsnum \<Rightarrow> jsnum" where
  "js_mul NaN _ = NaN"
| "js_mul _ NaN = NaN"
| "js_mul (Fin a) (Fin b) = Fin (a * b)"
| "js_mul (Fin a) PosInf = (if a = 0 then NaN else signedInf (a < 0))"
| "js_mul (Fin a) NegInf = (if a = 0 then NaN else signedInf (0 < a))"
| "js_mul PosInf (Fin b) = (if b = 0 then NaN else signedInf (b < 0))"
| "js_mul NegInf (Fin b) = (if b = 0 then NaN else signedInf (0 < b))"
| "js_mul PosInf PosInf = PosInf"
| "js_mul NegInf NegInf = PosInf"
| "js_mul PosInf NegInf = NegInf"
| "js_mul NegInf PosInf = NegInf"

fun js_div :: "jsnum \<Rightarrow> jsnum \<Rightarrow> jsnum" where
  "js_div NaN _ = NaN"
| "js_div _ NaN = NaN"
| "js_div (Fin a) (Fin b) =
     (if b = 0 then (if a = 0 then NaN else signedInf (a < 0)) else Fin (a / b))"
| "js_div (Fin a) _ = Fin 0"
| "js_div PosInf (Fin b) = signedInf (b < 0)"
| "js_div NegInf (Fin b) = signedInf (0 \<le> b)"
| "js_div _ _ = NaN"

fun js_abs :: "jsnum \<Rightarrow> jsnum" where
  "js_abs NaN = NaN"
| "js_abs NegInf = PosInf"
| "js_abs PosInf = PosInf"
| "js_abs (Fin a) = Fin \<bar>a\<bar>"

text \<open>The relational operators: every comparison with NaN is false.\<close>

fun js_lt :: "jsnum \<Rightarrow> jsnum \<Rightarrow> bool" where
  "js_lt NaN _ = False"
| "js_lt _ NaN = False"
| "js_lt (Fin a) (Fin b) = (a < b)"
| "js_lt NegInf NegInf = False"
| "js_lt NegInf _ = True"
| "js_lt _ NegInf = False"
| "js_lt PosInf _ = False"
| "js_lt _ PosInf = True"

definition js_gt :: "jsnum \<Rightarrow> jsnum \<Rightarrow> bool" where
  "js_gt a b = js_lt b a"

text \<open>Strict equality \<^verbatim>\<open>===\<close> on numbers: NaN differs from itself.\<close>

definition js_eq :: "jsnum \<Rightarrow> jsnum \<Rightarrow> bool" where
  "js_eq a b = (\<not> isNaN a \<and> \<not> isNaN b \<and> a = b)"

definition js_le :: "jsnum \<Rightarrow> jsnum \<Rightarrow> bool" where
  "js_le a b = (js_lt a b \<or> js_eq a b)"

definition js_ge :: "jsnum \<Rightarrow> jsnum \<Rightarrow> bool" where
  "js_ge a b = js_le b a"

text \<open>\<^verbatim>\<open>x || d\<close> on a number: the falsy numbers are zero and NaN.\<close>

definition orElse :: "jsnum \<Rightarrow> jsnum \<Rightarrow> jsnum" where
  "orElse x d = (if isNaN x \<or> x = Fin 0 then d else x)"

text \<open>
  \<^verbatim>\<open>Math.min\<close> and \<^verbatim>\<open>Math.max\<close> of an argument list: NaN if any argument is NaN,
  otherwise the least (greatest) argument, starting from \<open>+\<infinity>\<close> (\<open>-\<infinity>\<close>).
\<close>

definition mathMin :: "jsnum list \<Rightarrow> jsnum" where
  "mathMin xs =
     (if list_ex isNaN xs then NaN
      else foldl (\<lambda>lowest x. if js_lt x lowest then x else lowest) PosInf xs)"

definition mathMax :: "jsnum list \<Rightarrow> jsnum" where
  "mathMax xs =
     (if list_ex isNaN xs then NaN
      else foldl (\<lambda>highest x. if js_gt x highest then x else highest) NegInf xs)"

subsection \<open>Strings and the numeric parsers\<close>

text \<open>
  Strings are lists of characters; the white space recognised is the ASCII part of
  what \<^verbatim>\<open>trim\<close>, \<^verbatim>\<open>parseInt\<close> and \<^verbatim>\<open>parseFloat\<close> skip. An absent value
  (\<^verbatim>\<open>undefined\<close>) is \<open>None\<close>; the parsers first convert their argument to a string,
  which turns it into the text \<^verbatim>\<open>undefined\<close>.
\<close>

definition isWhiteSpace :: "char \<Rightarrow> bool" where
  "isWhiteSpace c = (c \<in> set [CHR '' '', CHR 0x09, CHR 0x0A, CHR 0x0B, CHR 0x0C, CHR 0x0D])"

definition trimStart :: "string \<Rightarrow> string" where
  "trimStart s = dropWhile isWhiteSpace s"

definition trim :: "string \<Rightarrow> string" where
  "trim s = rev (dropWhile isWhiteSpace (rev (dropWhile isWhiteSpace s)))"

definition toString :: "string option \<Rightarrow> string" where
  "toString v = (case v of None \<Rightarrow> ''undefined'' | Some s \<Rightarrow> s)"

text \<open>A string is truthy when it is present and not empty.\<close>

definition truthy :: "string option \<Rightarrow> bool" where
  "truthy v = (case v of None \<Rightarrow> False | Some s \<Rightarrow> s \<noteq> [])"

definition isDigit :: "char \<Rightarrow> bool" where
  "isDigit c = (let n = (of_char c :: nat) in 48 \<le> n \<and> n \<le> 57)"

text \<open>The value of a digit in radix 10 or 16; \<open>None\<close> for any other character.\<close>

definition hexVal :: "char \<Rightarrow> nat option" where
  "hexVal c =
     (let n = (of_char c :: nat) in
      if 48 \<le> n \<and> n \<le> 57 then Some (n - 48)
      else if 97 \<le> n \<and> n \<le> 102 then Some (n - 87)
      else if 65 \<le> n \<and> n \<le> 70 then Some (n - 55)
      else None)"

definition isRadixDigit :: "nat \<Rightarrow> char \<Rightarrow> bool" where
  "isRadixDigit radix c = (case hexVal c of None \<Rightarrow> False | Some d \<Rightarrow> d < radix)"

definition radixVal :: "nat \<Rightarrow> string \<Rightarrow> nat" where
  "radixVal radix ds = foldl (\<lambda>acc c. radix * acc + (case hexVal c of None \<Rightarrow> 0 | Some d \<Rightarrow> d)) 0 ds"

text \<open>An optional sign at the head of a string: whether it is a minus, and the rest.\<close>

definition takeSign :: "string \<Rightarrow> bool \<times> string" where
  "takeSign s =
     (case s of
        [] \<Rightarrow> (False, [])
      | c # r \<Rightarrow> if c = CHR ''-'' then (True, r) else if c = CHR ''+'' then (False, r) else (False, s))"

text \<open>
  \<^verbatim>\<open>parseInt(v)\<close> with no radix: leading white space and a sign are skipped, a prefix
  \<^verbatim>\<open>0x\<close> selects radix 16, and the longest run of digits is read; NaN when that run is
  empty.
\<close>

definition parseInt :: "string option \<Rightarrow> jsnum" where
  "parseInt v =
     (let (negative, s) = takeSign (trimStart (toString v));
          hex = (take 2 s = ''0x'' \<or> take 2 s = ''0X'');
          radix = (if hex then 16 else 10);
          z = takeWhile (isRadixDigit radix) (if hex then drop 2 s else s);
          n = int (radixVal radix z)
      in if z = [] then NaN else Fin (of_int (if negative then - n else n)))"

text \<open>The exponent part of a decimal literal, \<open>0\<close> when there is none.\<close>

definition exponentPart :: "string \<Rightarrow> int" where
  "exponentPart s =
     (case s of
        [] \<Rightarrow> 0
      | c # r \<Rightarrow>
          if c = CHR ''e'' \<or> c = CHR ''E'' then
            (let (negative, d) = takeSign r;
                 ds = takeWhile isDigit d;
                 n = int (radixVal 10 ds)
             in if ds = [] then 0 else if negative then - n else n)
          else 0)"

definition pow10 :: "int \<Rightarrow> rat" where
  "pow10 e = (if 0 \<le> e then 10 ^ nat e else 1 / 10 ^ nat (- e))"

text \<open>
  \<^verbatim>\<open>parseFloat(v)\<close>: leading white space is skipped and the longest prefix that is a
  decimal literal (sign, \<^verbatim>\<open>Infinity\<close> or digits with an optional fraction and
  exponent) is read; NaN when there is no such prefix. Whatever follows the prefix is
  ignored.
\<close>

definition parseFloat :: "string option \<Rightarrow> jsnum" where
  "parseFloat v =
     (let (negative, u) = takeSign (trimStart (toString v));
          ip = takeWhile isDigit u;
          r1 = dropWhile isDigit u;
          dot = (r1 \<noteq> [] \<and> hd r1 = CHR ''.'');
          fp = (if dot then takeWhile isDigit (tl r1) else []);
          r2 = (if dot then dropWhile isDigit (tl r1) else r1);
          mant = of_nat (radixVal 10 ip) + of_nat (radixVal 10 fp) / 10 ^ length fp;
          m = mant * pow10 (exponentPart r2)
      in if take 8 u = ''Infinity'' then signedInf negative
         else if ip = [] \<and> fp = [] then NaN
         else Fin (if negative then - m else m))"

subsection \<open>The numeric coercer\<close>

text \<open>
  \<^verbatim>\<open>
  const parseNumber = (value: string | undefined): number => {
    if (!value || value.trim() === '') return 0;
    const cleaned = value.replace(/,/g, '').replace(/%/g, '');
    const parsed = parseFloat(cleaned);
    return isNaN(parsed) ? 0 : parsed;
  };
  \<close>
\<close>

definition cleaned :: "string \<Rightarrow> string" where
  "cleaned v = filter (\<lambda>c. c \<noteq> CHR ''%'') (filter (\<lambda>c. c \<noteq> CHR '','') v)"

definition parseNumber :: "string option \<Rightarrow> jsnum" where
  "parseNumber v =
     (case v of
        None \<Rightarrow> Fin 0
      | Some s \<Rightarrow>
          if s = [] \<or> trim s = [] then Fin 0
          else (let parsed = parseFloat (Some (cleaned s))
                in if isNaN parsed then Fin 0 else parsed))"

text \<open>
  What the specification calls a string that is numeric after stripping: after leading
  white space and an optional sign the text opens with a digit, with a point followed by
  a digit, or with the word \<^verbatim>\<open>Infinity\<close>. This definition follows the wording of
  the specification and is compared with \<open>parseFloat\<close> below.
\<close>

definition hasNumericPrefix :: "string \<Rightarrow> bool" where
  "hasNumericPrefix s =
     (let u = snd (takeSign (trimStart s)) in
      take 8 u = ''Infinity''
      \<or> (case u of
            [] \<Rightarrow> False
          | c # r \<Rightarrow> isDigit c \<or> (c = CHR ''.'' \<and> (case r of [] \<Rightarrow> False | d # _ \<Rightarrow> isDigit d))))"

subsection \<open>The axis domain\<close>

text \<open>
  \<^verbatim>\<open>
  const calculateAxisDomain = (data: number[]): [number, number] => {
    const validData = data.filter(val => typeof val === 'number' && !isNaN(val) && val !== undefined);
    if (validData.length === 0) return [0, 100];
    const min = Math.min(...validData);
    const max = Math.max(...validData);
    if (min === max) {
      const value = min;
      return [value * 0.9, value * 1.1];
    }
    const padding = (max - min) * 0.05;
    return [min - padding, max + padding];
  };
  \<close>
  An entry of the array is a number or \<^verbatim>\<open>undefined\<close> (\<open>None\<close>).
\<close>

definition validData :: "jsnum option list \<Rightarrow> jsnum list" where
  "validData data = [x. Some x \<leftarrow> data, \<not> isNaN x]"

definition calculateAxisDomain :: "jsnum option list \<Rightarrow> jsnum \<times> jsnum" where
  "calculateAxisDomain data =
     (let vs = validData data in
      if length vs = 0 then (Fin 0, Fin 100)
      else
        (let min = mathMin vs; max = mathMax vs in
         if js_eq min max then (js_mul min (Fin (9 / 10)), js_mul min (Fin (11 / 10)))
         else
           (let padding = js_mul (js_sub max min) (Fin (5 / 100))
            in (js_sub min padding, js_add max padding))))"

subsection \<open>Dates\<close>

text \<open>
  A \<^verbatim>\<open>Date\<close> is its time value: milliseconds since the epoch, or NaN for an invalid
  date. The host supplies what the program cannot compute: the reading of the clock
  (\<^verbatim>\<open>new Date()\<close>) and the offset of local time from UTC, in milliseconds, at a
  given instant (the flag tells whether the instant is UTC or local).
\<close>

record host =
  clock :: int
  localTZA :: "int \<Rightarrow> bool \<Rightarrow> int"

text \<open>The time zone of a host that keeps UTC: the offset is zero at every instant.\<close>

definition utcZone :: "int \<Rightarrow> bool \<Rightarrow> int" where
  "utcZone t isUTC = 0"

definition msPerDay :: int where
  "msPerDay = 86400000"

text \<open>Truncation towards zero, as \<^verbatim>\<open>ToIntegerOrInfinity\<close> does on a finite number.\<close>

definition truncate :: "rat \<Rightarrow> int" where
  "truncate q = (if q < 0 then - \<lfloor>- q\<rfloor> else \<lfloor>q\<rfloor>)"

text \<open>
  The day number (days since 1 January 1970) of day \<open>d\<close> of month \<open>m\<close> (1 to 12) of
  year \<open>y\<close> in the proleptic Gregorian calendar.
\<close>

definition daysFromCivil :: "int \<Rightarrow> int \<Rightarrow> int \<Rightarrow> int" where
  "daysFromCivil y m d =
     (let y' = (if m \<le> 2 then y - 1 else y);
          era = y' div 400;
          yoe = y' - era * 400;
          doy = (153 * (if 2 < m then m - 3 else m + 9) + 2) div 5 + d - 1;
          doe = yoe * 365 + yoe div 4 - yoe div 100 + doy
      in era * 146097 + doe - 719468)"

text \<open>The abstract operations of the language specification on time values.\<close>

fun makeTime :: "jsnum \<Rightarrow> jsnum \<Rightarrow> jsnum \<Rightarrow> jsnum \<Rightarrow> jsnum" where
  "makeTime (Fin h) (Fin m) (Fin s) (Fin ms) =
     Fin (of_int (truncate h * 3600000 + truncate m * 60000 + truncate s * 1000 + truncate ms))"
| "makeTime _ _ _ _ = NaN"

fun makeDay :: "jsnum \<Rightarrow> jsnum \<Rightarrow> jsnum \<Rightarrow> jsnum" where
  "makeDay (Fin year) (Fin month) (Fin date) =
     (let y = truncate year; m = truncate month; dt = truncate date;
          ym = y + m div 12;
          mn = m mod 12
      in Fin (of_int (daysFromCivil ym (mn + 1) 1 + dt - 1)))"
| "makeDay _ _ _ = NaN"

fun makeDate :: "jsnum \<Rightarrow> jsnum \<Rightarrow> jsnum" where
  "makeDate (Fin day) (Fin time) = Fin (day * of_int msPerDay + time)"
| "makeDate _ _ = NaN"

fun makeFullYear :: "jsnum \<Rightarrow> jsnum" where
  "makeFullYear (Fin year) =
     (let t = truncate year in if 0 \<le> t \<and> t \<le> 99 then Fin (of_int (1900 + t)) else Fin (of_int t))"
| "makeFullYear NaN = NaN"
| "makeFullYear PosInf = PosInf"
| "makeFullYear NegInf = NegInf"

fun timeClip :: "jsnum \<Rightarrow> jsnum" where
  "timeClip (Fin t) = (if 8640000000000000 < \<bar>t\<bar> then NaN else Fin (of_int (truncate t)))"
| "timeClip _ = NaN"

fun utc :: "host \<Rightarrow> jsnum \<Rightarrow> jsnum" where
  "utc h (Fin t) = Fin (t - of_int (localTZA h (truncate t) False))"
| "utc h _ = NaN"

definition localTime :: "host \<Rightarrow> rat \<Rightarrow> rat" where
  "localTime h t = t + of_int (localTZA h (truncate t) True)"

text \<open>\<^verbatim>\<open>new Date(year, month, day)\<close>: local midnight of that day.\<close>

definition newDate :: "host \<Rightarrow> jsnum \<Rightarrow> jsnum \<Rightarrow> jsnum \<Rightarrow> jsnum" where
  "newDate h year month day =
     timeClip (utc h (makeDate (makeDay (makeFullYear year) month day)
                               (makeTime (Fin 0) (Fin 0) (Fin 0) (Fin 0))))"

text \<open>
  \<^verbatim>\<open>date.setHours(hours, minutes, seconds, ms)\<close>: the new time value of the date. An
  invalid date stays invalid.
\<close>

fun setHours :: "host \<Rightarrow> jsnum \<Rightarrow> jsnum \<Rightarrow> jsnum \<Rightarrow> jsnum \<Rightarrow> jsnum \<Rightarrow> jsnum" where
  "setHours h (Fin t) hours minutes seconds ms =
     timeClip (utc h (makeDate (Fin (of_int \<lfloor>localTime h t / of_int msPerDay\<rfloor>))
                               (makeTime hours minutes seconds ms)))"
| "setHours h _ hours minutes seconds ms = NaN"

text \<open>\<^verbatim>\<open>s.split(sep)\<close> for a one-character separator.\<close>

fun split :: "char \<Rightarrow> string \<Rightarrow> string list" where
  "split sep [] = [[]]"
| "split sep (c # cs) =
     (if c = sep then [] # split sep cs
      else (case split sep cs of [] \<Rightarrow> [[c]] | p # ps \<Rightarrow> (c # p) # ps))"

text \<open>An element of a destructured array: \<^verbatim>\<open>undefined\<close> beyond its end.\<close>

definition element :: "'a list \<Rightarrow> nat \<Rightarrow> 'a option" where
  "element xs i = (if i < length xs then Some (xs ! i) else None)"

subsection \<open>The date and time normaliser\<close>

text \<open>
  \<^verbatim>\<open>
  const parseDateTime = (dateStr: string, timeStr?: string): Date => {
    if (!dateStr) return new Date();
    try {
      const [day, month, year] = dateStr.split('.');
      const date = new Date(parseInt(year), parseInt(month) - 1, parseInt(day));
      if (timeStr) {
        const [hours, minutes] = timeStr.split(':');
        date.setHours(parseInt(hours), parseInt(minutes), 0, 0);
      }
      return date;
    } catch (error) {
      console.warn('Invalid date format:', dateStr, timeStr);
      return new Date();
    }
  };
  \<close>
  The same function is repeated in \<^verbatim>\<open>src/components/dam/Visualization.tsx\<close>. Its
  arguments are fields of untyped records, so the date string too may be absent. The
  body of the \<^verbatim>\<open>try\<close> is a function of its own whose result is an exception or a
  date, so that the handler is a branch of the model. On strings none of \<^verbatim>\<open>split\<close>,
  \<^verbatim>\<open>parseInt\<close>, the \<^verbatim>\<open>Date\<close> constructor and \<^verbatim>\<open>setHours\<close> raises: they
  answer a malformed argument with NaN.
\<close>

datatype jsError = TypeError | RangeError

definition parseDateTimeBody :: "host \<Rightarrow> string \<Rightarrow> string option \<Rightarrow> jsError + jsnum" where
  "parseDateTimeBody h dateStr timeStr =
     (let parts = split CHR ''.'' dateStr;
          day = element parts 0; month = element parts 1; year = element parts 2;
          date = newDate h (parseInt year) (js_sub (parseInt month) (Fin 1)) (parseInt day)
      in if truthy timeStr then
           (let tparts = split CHR '':'' (toString timeStr);
                hours = element tparts 0; minutes = element tparts 1
            in Inr (setHours h date (parseInt hours) (parseInt minutes) (Fin 0) (Fin 0)))
         else Inr date)"

definition parseDateTime :: "host \<Rightarrow> string option \<Rightarrow> string option \<Rightarrow> jsnum" where
  "parseDateTime h dateStr timeStr =
     (if \<not> truthy dateStr then Fin (of_int (clock h))
      else (case parseDateTimeBody h (toString dateStr) timeStr of
              Inl error \<Rightarrow> Fin (of_int (clock h))
            | Inr date \<Rightarrow> date))"

subsection \<open>The range filter\<close>

text \<open>
  A telemetry record, with the fields the pipeline reads; each is a string or absent.
  An entry of the fetched collection may itself be null (\<open>None\<close>).
\<close>

record telemetry =
  date :: "string option"
  time :: "string option"
  waterLevel :: "string option"
  inflow :: "string option"
  totalOutflow :: "string option"

record dateRange =
  "from" :: "jsnum option"
  to :: "jsnum option"

text \<open>
  \<^verbatim>\<open>isWithinInterval\<close> of the library date-fns, which is not part of the repository:
  the two ends are put in ascending order (\<^verbatim>\<open>[start, end].sort((a, b) => a - b)\<close>)
  and the date is compared with both, ends included. Releases before 3.0 raise an error
  instead when the ends are not in order; for ends in order all releases agree.
\<close>

definition isWithinInterval :: "jsnum \<Rightarrow> jsnum \<Rightarrow> jsnum \<Rightarrow> bool" where
  "isWithinInterval t start end' =
     (let (startTime, endTime) =
            (if js_gt (js_sub start end') (Fin 0) then (end', start) else (start, end'))
      in js_ge t startTime \<and> js_le t endTime)"

text \<open>
  \<^verbatim>\<open>Array.prototype.sort\<close> with a comparison function is a stable sort: an element
  moves behind another only when the comparison is positive. It is modelled by stable
  insertion.
\<close>

fun insertBy :: "('a \<Rightarrow> 'a \<Rightarrow> jsnum) \<Rightarrow> 'a \<Rightarrow> 'a list \<Rightarrow> 'a list" where
  "insertBy cmp x [] = [x]"
| "insertBy cmp x (y # ys) =
     (if js_gt (cmp x y) (Fin 0) then y # insertBy cmp x ys else x # y # ys)"

definition sortBy :: "('a \<Rightarrow> 'a \<Rightarrow> jsnum) \<Rightarrow> 'a list \<Rightarrow> 'a list" where
  "sortBy cmp xs = foldr (insertBy cmp) xs []"

text \<open>
  \<^verbatim>\<open>
  const filteredData = useMemo(() => {
    if (!damData?.data || !dateRange?.from) return damData?.data || [];
    const filtered = damData.data.filter((item) => {
      if (!item || !item.date) return false;
      const itemDate = parseDateTime(item.date, item.time);
      const startDate = dateRange.from;
      const endDate = dateRange.to || referenceDate;
      return isWithinInterval(itemDate, { start: startDate, end: endDate });
    });
    return filtered.sort((a, b) => {
      const dateA = parseDateTime(a.date, a.time);
      const dateB = parseDateTime(b.date, b.time);
      return dateA.getTime() - dateB.getTime();
    });
  }, [damData?.data, dateRange, referenceDate]);
  \<close>
\<close>

definition itemDate :: "host \<Rightarrow> telemetry \<Rightarrow> jsnum" where
  "itemDate h item = parseDateTime h (date item) (time item)"

definition endDate :: "dateRange \<Rightarrow> jsnum \<Rightarrow> jsnum" where
  "endDate rng referenceDate = (case to rng of None \<Rightarrow> referenceDate | Some e \<Rightarrow> e)"

definition filtered :: "host \<Rightarrow> telemetry option list \<Rightarrow> jsnum \<Rightarrow> jsnum \<Rightarrow> telemetry list" where
  "filtered h data startDate end' =
     [item. Some item \<leftarrow> data, truthy (date item),
            isWithinInterval (itemDate h item) startDate end']"

definition filteredData ::
  "host \<Rightarrow> telemetry option list option \<Rightarrow> dateRange option \<Rightarrow> jsnum \<Rightarrow> telemetry option list" where
  "filteredData h data rng referenceDate =
     (case data of
        None \<Rightarrow> []
      | Some d \<Rightarrow>
          (case rng of
             None \<Rightarrow> d
           | Some r \<Rightarrow>
               (case from r of
                  None \<Rightarrow> d
                | Some startDate \<Rightarrow>
                    map Some
                      (sortBy (\<lambda>a b. js_sub (itemDate h a) (itemDate h b))
                         (filtered h d startDate (endDate r referenceDate))))))"

subsection \<open>The alert zone\<close>

text \<open>
  \<^verbatim>\<open>
  function getAlertZone(waterLevel: number, damData: any) {
    if (waterLevel >= parseFloat(damData.redLevel)) return 'red';
    if (waterLevel >= parseFloat(damData.orangeLevel)) return 'orange';
    if (waterLevel >= parseFloat(damData.blueLevel)) return 'blue';
    return 'normal';
  }
  \<close>
\<close>

record stationConfig =
  redLevel :: "string option"
  orangeLevel :: "string option"
  blueLevel :: "string option"

datatype zone = Red | Orange | Blue | Normal

definition getAlertZone :: "jsnum \<Rightarrow> stationConfig \<Rightarrow> zone" where
  "getAlertZone level damData =
     (if js_ge level (parseFloat (redLevel damData)) then Red
      else if js_ge level (parseFloat (orangeLevel damData)) then Orange
      else if js_ge level (parseFloat (blueLevel damData)) then Blue
      else Normal)"

subsection \<open>The trend estimator\<close>

text \<open>
  \<^verbatim>\<open>
  function calculateWaterLevelTrend(currentData: any, damData: any, recentData?: any[]) {
    if (!currentData) return { hourlyChange: 0, trend: 'stable', confidence: 'low' };
    const inflow = parseFloat(currentData.inflow) || 0;
    const outflow = parseFloat(currentData.totalOutflow) || 0;
    const netFlow = inflow - outflow; // CFS
    const currentLevel = parseFloat(currentData.waterLevel) || 552;
    const surfaceAreaAcres = 22000 + ((currentLevel - 552) / (580 - 552)) * 2000;
    const cubicFeetPerHour = netFlow * 3600;
    const surfaceAreaSqFt = surfaceAreaAcres * 43560;
    const hourlyChangeFeet = cubicFeetPerHour / surfaceAreaSqFt;
    let trend = 'stable';
    let confidence = 'medium';
    if (Math.abs(hourlyChangeFeet) > 0.01) {
      trend = hourlyChangeFeet > 0 ? 'rising' : 'falling';
      confidence = 'high';
    } else if (Math.abs(hourlyChangeFeet) > 0.005) {
      trend = hourlyChangeFeet > 0 ? 'rising' : 'falling';
      confidence = 'medium';
    } else {
      confidence = 'low';
    }
    if (recentData && recentData.length >= 3) {
      const recent3Hours = recentData.slice(0, 3).map(d => parseFloat(d.waterLevel));
      const levelTrend = recent3Hours[0] - recent3Hours[2]; // Latest - 3 hours ago
      if (Math.abs(levelTrend) > 0.05) {
        trend = levelTrend > 0 ? 'rising' : 'falling';
        confidence = 'high';
      }
    }
    return { hourlyChange: hourlyChangeFeet, hourlyChangeInches: hourlyChangeFeet * 12,
             trend, confidence, netFlow };
  }
  \<close>
  The result for an absent record has no \<^verbatim>\<open>hourlyChangeInches\<close> and no
  \<^verbatim>\<open>netFlow\<close>. Each intermediate constant of the body is a definition of its own.
\<close>

datatype direction = Rising | Falling | Stable

datatype certainty = High | Medium | Low

record trendEstimate =
  hourlyChange :: jsnum
  hourlyChangeInches :: "jsnum option"
  trend :: direction
  confidence :: certainty
  netFlow :: "jsnum option"

definition netFlowOf :: "telemetry \<Rightarrow> jsnum" where
  "netFlowOf currentData =
     (let inflow = orElse (parseFloat (inflow currentData)) (Fin 0);
          outflow = orElse (parseFloat (totalOutflow currentData)) (Fin 0)
      in js_sub inflow outflow)"

definition currentLevel :: "telemetry \<Rightarrow> jsnum" where
  "currentLevel currentData = orElse (parseFloat (waterLevel currentData)) (Fin 552)"

definition surfaceAreaAcres :: "telemetry \<Rightarrow> jsnum" where
  "surfaceAreaAcres currentData =
     js_add (Fin 22000)
       (js_mul (js_div (js_sub (currentLevel currentData) (Fin 552)) (Fin (580 - 552))) (Fin 2000))"

definition hourlyChangeFeet :: "telemetry \<Rightarrow> jsnum" where
  "hourlyChangeFeet currentData =
     (let cubicFeetPerHour = js_mul (netFlowOf currentData) (Fin 3600);
          surfaceAreaSqFt = js_mul (surfaceAreaAcres currentData) (Fin 43560)
      in js_div cubicFeetPerHour surfaceAreaSqFt)"

text \<open>The classification by the flow estimate alone: the first \<^verbatim>\<open>if\<close> chain.\<close>

definition flowTrend :: "jsnum \<Rightarrow> direction \<times> certainty" where
  "flowTrend change =
     (if js_gt (js_abs change) (Fin (1 / 100)) then
        (if js_gt change (Fin 0) then Rising else Falling, High)
      else if js_gt (js_abs change) (Fin (5 / 1000)) then
        (if js_gt change (Fin 0) then Rising else Falling, Medium)
      else (Stable, Low))"

text \<open>The refinement by recent records: the second \<^verbatim>\<open>if\<close>.\<close>

definition levelTrend :: "telemetry list \<Rightarrow> jsnum" where
  "levelTrend recentData =
     (let recent3Hours = map (\<lambda>d. parseFloat (waterLevel d)) (take 3 recentData)
      in js_sub (recent3Hours ! 0) (recent3Hours ! 2))"

definition recentTrend ::
  "telemetry list option \<Rightarrow> direction \<times> certainty \<Rightarrow> direction \<times> certainty" where
  "recentTrend recentData estimate =
     (case recentData of
        None \<Rightarrow> estimate
      | Some recent \<Rightarrow>
          if 3 \<le> length recent then
            (if js_gt (js_abs (levelTrend recent)) (Fin (5 / 100)) then
               (if js_gt (levelTrend recent) (Fin 0) then Rising else Falling, High)
             else estimate)
          else estimate)"

definition calculateWaterLevelTrend ::
  "telemetry option \<Rightarrow> stationConfig \<Rightarrow> telemetry list option \<Rightarrow> trendEstimate" where
  "calculateWaterLevelTrend currentData damData recentData =
     (case currentData of
        None \<Rightarrow>
          \<lparr>hourlyChange = Fin 0, hourlyChangeInches = None, trend = Stable,
           confidence = Low, netFlow = None\<rparr>
      | Some current \<Rightarrow>
          (let change = hourlyChangeFeet current;
               (tr, conf) = recentTrend recentData (flowTrend change)
           in \<lparr>hourlyChange = change,
               hourlyChangeInches = Some (js_mul change (Fin 12)),
               trend = tr, confidence = conf,
               netFlow = Some (netFlowOf current)\<rparr>))"

section \<open>Properties\<close>

subsection \<open>Numbers and parsers\<close>

lemma isNaN_iff: "isNaN x \<longleftrightarrow> x = NaN"
  by (cases x) simp_all

lemma parseFloat_undefined: "parseFloat None = NaN"
  by code_simp

lemma parseInt_undefined: "parseInt None = NaN"
  by code_simp

text \<open>
  \<open>parseFloat\<close> answers NaN exactly on the strings that have no numeric prefix in the
  sense of the specification.
\<close>

lemma parseFloat_NaN_iff: "parseFloat (Some s) = NaN \<longleftrightarrow> \<not> hasNumericPrefix s"
proof -
  obtain neg u where su: "takeSign (trimStart s) = (neg, u)"
    by (cases "takeSign (trimStart s)")
  note defs = parseFloat_def hasNumericPrefix_def toString_def su Let_def signedInf_def
  show ?thesis
  proof (cases "take 8 u = ''Infinity''")
    case True
    then show ?thesis
      by (auto simp add: defs)
  next
    case notInf: False
    show ?thesis
    proof (cases u)
      case Nil
      with notInf show ?thesis
        by (auto simp add: defs)
    next
      case (Cons c r)
      show ?thesis
      proof (cases "isDigit c")
        case True
        with notInf Cons show ?thesis
          by (auto simp add: defs)
      next
        case nd: False
        show ?thesis
        proof (cases "c = CHR ''.''")
          case True
          with notInf Cons nd show ?thesis
            by (cases r) (auto simp add: defs)
        next
          case False
          with notInf Cons nd show ?thesis
            by (auto simp add: defs)
        qed
      qed
    qed
  qed
qed

subsection \<open>The numeric coercer\<close>

text \<open>
  Claim C8. \<open>parseNumber\<close> returns exactly 0 for an absent value, for the empty string,
  for every string of white space only, and for every string that is not numeric once
  commas and percent signs are stripped; it returns 1234.5 for \<^verbatim>\<open>1,234.5\<close> and 42
  for \<^verbatim>\<open>42%\<close>.
\<close>

theorem parseNumber_coerces:
  "parseNumber None = Fin 0
   \<and> parseNumber (Some []) = Fin 0
   \<and> (\<forall>s. trim s = [] \<longrightarrow> parseNumber (Some s) = Fin 0)
   \<and> (\<forall>s. \<not> hasNumericPrefix (cleaned s) \<longrightarrow> parseNumber (Some s) = Fin 0)
   \<and> parseNumber (Some ''1,234.5'') = Fin (12345 / 10)
   \<and> parseNumber (Some ''42%'') = Fin 42"
proof -
  have a: "parseNumber None = Fin 0" "parseNumber (Some []) = Fin 0"
    by (simp_all add: parseNumber_def)
  have b: "\<forall>s. trim s = [] \<longrightarrow> parseNumber (Some s) = Fin 0"
    by (simp add: parseNumber_def)
  have c: "\<forall>s. \<not> hasNumericPrefix (cleaned s) \<longrightarrow> parseNumber (Some s) = Fin 0"
    by (simp add: parseNumber_def Let_def isNaN_iff parseFloat_NaN_iff)
  have d: "parseNumber (Some ''1,234.5'') = Fin (12345 / 10)"
    by code_simp
  have e: "parseNumber (Some ''42%'') = Fin 42"
    by code_simp
  from a b c d e show ?thesis by blast
qed

theorem parseNumber_coerces_witness:
  "trim ''   '' = [] \<and> parseNumber (Some ''   '') = Fin 0
   \<and> \<not> hasNumericPrefix (cleaned ''n/a'') \<and> parseNumber (Some ''n/a'') = Fin 0"
proof -
  have a: "trim ''   '' = []" by code_simp
  have b: "\<not> hasNumericPrefix (cleaned ''n/a'')" by code_simp
  from a b parseNumber_coerces show ?thesis by blast
qed

subsection \<open>The alert zone\<close>

lemma js_ge_Fin: "js_ge (Fin a) (Fin b) \<longleftrightarrow> b \<le> a"
  by (auto simp add: js_ge_def js_le_def js_eq_def)

text \<open>
  Claim C6. \<open>getAlertZone\<close> checks the thresholds in descending priority with inclusive
  comparisons: red when the level is at least the red level, otherwise orange when it is
  at least the orange level, otherwise blue when it is at least the blue level, otherwise
  normal. With the thresholds 580, 575 and 570 the levels 581, 576, 571 and 560 are red,
  orange, blue and normal, and the boundary 580 is red.
\<close>

theorem getAlertZone_priority:
  "(parseFloat (redLevel d) = Fin r \<and> parseFloat (orangeLevel d) = Fin og
      \<and> parseFloat (blueLevel d) = Fin b \<longrightarrow>
      getAlertZone (Fin l) d =
        (if r \<le> l then Red else if og \<le> l then Orange else if b \<le> l then Blue else Normal))
   \<and> (let t = \<lparr>redLevel = Some ''580'', orangeLevel = Some ''575'', blueLevel = Some ''570''\<rparr> in
        getAlertZone (Fin 581) t = Red \<and> getAlertZone (Fin 576) t = Orange
        \<and> getAlertZone (Fin 571) t = Blue \<and> getAlertZone (Fin 560) t = Normal
        \<and> getAlertZone (Fin 580) t = Red)"
proof -
  have general: "parseFloat (redLevel d) = Fin r \<and> parseFloat (orangeLevel d) = Fin og
      \<and> parseFloat (blueLevel d) = Fin b \<longrightarrow>
      getAlertZone (Fin l) d =
        (if r \<le> l then Red else if og \<le> l then Orange else if b \<le> l then Blue else Normal)"
    by (simp add: getAlertZone_def js_ge_Fin)
  have p: "parseFloat (Some ''580'') = Fin 580" "parseFloat (Some ''575'') = Fin 575"
    "parseFloat (Some ''570'') = Fin 570"
    by code_simp+
  have examples: "let t = \<lparr>redLevel = Some ''580'', orangeLevel = Some ''575'', blueLevel = Some ''570''\<rparr> in
        getAlertZone (Fin 581) t = Red \<and> getAlertZone (Fin 576) t = Orange
        \<and> getAlertZone (Fin 571) t = Blue \<and> getAlertZone (Fin 560) t = Normal
        \<and> getAlertZone (Fin 580) t = Red"
    by (simp add: getAlertZone_def js_ge_Fin p)
  from general examples show ?thesis by blast
qed

theorem getAlertZone_priority_witness:
  "parseFloat (redLevel \<lparr>redLevel = Some ''580 ft'', orangeLevel = Some ''575.5'', blueLevel = Some ''570''\<rparr>) = Fin 580
   \<and> parseFloat (orangeLevel \<lparr>redLevel = Some ''580 ft'', orangeLevel = Some ''575.5'', blueLevel = Some ''570''\<rparr>) = Fin (1151 / 2)
   \<and> parseFloat (blueLevel \<lparr>redLevel = Some ''580 ft'', orangeLevel = Some ''575.5'', blueLevel = Some ''570''\<rparr>) = Fin 570
   \<and> getAlertZone (Fin (1151 / 2)) \<lparr>redLevel = Some ''580 ft'', orangeLevel = Some ''575.5'', blueLevel = Some ''570''\<rparr> = Orange"
proof -
  have p: "parseFloat (Some ''580 ft'') = Fin 580" "parseFloat (Some ''575.5'') = Fin (1151 / 2)"
    "parseFloat (Some ''570'') = Fin 570"
    by code_simp+
  show ?thesis
    using getAlertZone_priority [of "\<lparr>redLevel = Some ''580 ft'', orangeLevel = Some ''575.5'', blueLevel = Some ''570''\<rparr>" 580 "1151 / 2" 570 "1151 / 2"] p
    by simp
qed

subsection \<open>The trend estimator: the default level\<close>

lemma orElse_default: "x = NaN \<or> x = Fin 0 \<Longrightarrow> orElse x d = d"
  by (auto simp add: orElse_def)

text \<open>
  Claim C10. When the current record is present and its water level is missing,
  unparseable or parses to 0, the estimator takes 552 ft as the current level, so the
  interpolated surface area is exactly 22,000 acres and the hourly change is the net flow
  over that area; the level is not defaulted to zero.
\<close>

theorem default_level_552:
  "waterLevel c = None \<or> parseFloat (waterLevel c) = NaN \<or> parseFloat (waterLevel c) = Fin 0 \<Longrightarrow>
     currentLevel c = Fin 552
     \<and> surfaceAreaAcres c = Fin 22000
     \<and> hourlyChange (calculateWaterLevelTrend (Some c) d recent) =
         js_div (js_mul (netFlowOf c) (Fin 3600)) (Fin (22000 * 43560))"
proof -
  assume "waterLevel c = None \<or> parseFloat (waterLevel c) = NaN \<or> parseFloat (waterLevel c) = Fin 0"
  then have "parseFloat (waterLevel c) = NaN \<or> parseFloat (waterLevel c) = Fin 0"
    using parseFloat_undefined by auto
  then have lvl: "currentLevel c = Fin 552"
    unfolding currentLevel_def by (rule orElse_default)
  then have area: "surfaceAreaAcres c = Fin 22000"
    by (simp add: surfaceAreaAcres_def js_sub_def)
  have "hourlyChange (calculateWaterLevelTrend (Some c) d recent) = hourlyChangeFeet c"
    by (simp add: calculateWaterLevelTrend_def Let_def split: prod.split)
  also have "\<dots> = js_div (js_mul (netFlowOf c) (Fin 3600)) (Fin (22000 * 43560))"
    by (simp add: hourlyChangeFeet_def area)
  finally show ?thesis using lvl area by simp
qed


theorem default_level_552_witness:
  "parseFloat (waterLevel \<lparr>date = None, time = None, waterLevel = Some ''n/a'',
                           inflow = Some ''1000'', totalOutflow = Some ''900''\<rparr>) = NaN
   \<and> currentLevel \<lparr>date = None, time = None, waterLevel = Some ''n/a'',
                    inflow = Some ''1000'', totalOutflow = Some ''900''\<rparr> = Fin 552
   \<and> surfaceAreaAcres \<lparr>date = None, time = None, waterLevel = Some ''n/a'',
                        inflow = Some ''1000'', totalOutflow = Some ''900''\<rparr> = Fin 22000
   \<and> parseFloat (waterLevel \<lparr>date = None, time = None, waterLevel = Some ''0.0'',
                           inflow = None, totalOutflow = None\<rparr>) = Fin 0
   \<and> currentLevel \<lparr>date = None, time = None, waterLevel = Some ''0.0'',
                    inflow = None, totalOutflow = None\<rparr> = Fin 552
   \<and> currentLevel \<lparr>date = None, time = None, waterLevel = None,
                    inflow = None, totalOutflow = None\<rparr> = Fin 552"
proof -
  have a: "parseFloat (waterLevel \<lparr>date = None, time = None, waterLevel = Some ''n/a'',
                           inflow = Some ''1000'', totalOutflow = Some ''900''\<rparr>) = NaN"
    by code_simp
  have b: "parseFloat (waterLevel \<lparr>date = None, time = None, waterLevel = Some ''0.0'',
                           inflow = None, totalOutflow = None\<rparr>) = Fin 0"
    by code_simp
  have c: "waterLevel \<lparr>date = None, time = None, waterLevel = None,
                    inflow = None, totalOutflow = None\<rparr> = None"
    by simp
  show ?thesis
    using a b c
      default_level_552 [of "\<lparr>date = None, time = None, waterLevel = Some ''n/a'',
                           inflow = Some ''1000'', totalOutflow = Some ''900''\<rparr>"]
      default_level_552 [of "\<lparr>date = None, time = None, waterLevel = Some ''0.0'',
                           inflow = None, totalOutflow = None\<rparr>"]
      default_level_552 [of "\<lparr>date = None, time = None, waterLevel = None,
                    inflow = None, totalOutflow = None\<rparr>"]
    by blast
qed

subsection \<open>The date and time normaliser on a malformed date\<close>

text \<open>
  Claim C1, evaluated at the date string \<^verbatim>\<open>bad\<close>. The string has no second and third
  field, \<open>parseInt\<close> of the missing fields is NaN, and the date built from them is the
  invalid date: nothing is raised, the handler is not entered, and the result is not the
  reading of the clock.
\<close>

theorem parseDateTime_bad_invalid:
  "parseDateTime h (Some ''bad'') None = NaN
   \<and> parseDateTime h (Some ''bad'') None \<noteq> Fin (of_int (clock h))"
proof -
  have "parseDateTimeBody h ''bad'' None = Inr NaN"
    by (simp add: parseDateTimeBody_def element_def truthy_def parseInt_undefined
        newDate_def js_sub_def Let_def)
  then show ?thesis
    by (simp add: parseDateTime_def truthy_def toString_def)
qed

subsection \<open>The trend estimator: the net flow\<close>

lemma trim_Nil_trimStart: "trim s = [] \<Longrightarrow> trimStart s = []"
proof -
  assume "trim s = []"
  then have "dropWhile isWhiteSpace (rev (dropWhile isWhiteSpace s)) = []"
    by (simp add: trim_def)
  then have "\<forall>x \<in> set (dropWhile isWhiteSpace s). isWhiteSpace x"
    by (simp add: dropWhile_eq_Nil_conv)
  then show ?thesis
    unfolding trimStart_def using hd_dropWhile [of isWhiteSpace s]
    by (cases "dropWhile isWhiteSpace s") auto
qed

lemma parseFloat_blank: "trim s = [] \<Longrightarrow> parseFloat (Some s) = NaN"
  by (simp add: parseFloat_NaN_iff hasNumericPrefix_def trim_Nil_trimStart takeSign_def)

lemma parseNumber_plain:
  "(\<forall>s. v = Some s \<longrightarrow> cleaned s = s) \<Longrightarrow> parseNumber v = orElse (parseFloat v) (Fin 0)"
proof (cases v)
  case None
  then show ?thesis
    by (simp add: parseNumber_def orElse_def parseFloat_undefined)
next
  case (Some s)
  assume "\<forall>s. v = Some s \<longrightarrow> cleaned s = s"
  with Some have cl: "cleaned s = s" by simp
  show ?thesis
  proof (cases "trim s = []")
    case True
    then have "parseNumber v = Fin 0"
      using Some by (simp add: parseNumber_def)
    moreover have "parseFloat v = NaN"
      using True Some by (simp add: parseFloat_blank)
    ultimately show ?thesis by (simp add: orElse_def)
  next
    case False
    then have "s \<noteq> []" by (auto simp add: trim_def)
    with False Some cl show ?thesis
      by (auto simp add: parseNumber_def orElse_def Let_def)
  qed
qed

lemma netFlow_result: "netFlow (calculateWaterLevelTrend (Some c) d recent) = Some (netFlowOf c)"
  by (simp add: calculateWaterLevelTrend_def Let_def split: prod.split)

text \<open>
  Claim C5, as amended. The net flow of the estimate is the inflow minus the total
  outflow, each read by plain \<open>parseFloat\<close> with 0 for an absent or non-numeric field;
  where the two strings hold no comma and no percent sign (stripping leaves them
  unchanged) this is the difference of their \<open>parseNumber\<close> values.
\<close>

theorem netFlow_plain_parseFloat:
  "netFlow (calculateWaterLevelTrend (Some c) d recent) =
     Some (js_sub (orElse (parseFloat (inflow c)) (Fin 0))
                  (orElse (parseFloat (totalOutflow c)) (Fin 0)))
   \<and> ((\<forall>s. inflow c = Some s \<longrightarrow> cleaned s = s)
        \<and> (\<forall>s. totalOutflow c = Some s \<longrightarrow> cleaned s = s) \<longrightarrow>
      netFlow (calculateWaterLevelTrend (Some c) d recent) =
        Some (js_sub (parseNumber (inflow c)) (parseNumber (totalOutflow c))))"
  by (simp add: netFlow_result netFlowOf_def Let_def parseNumber_plain)

theorem netFlow_plain_parseFloat_witness:
  "cleaned ''1234.5 cfs'' = ''1234.5 cfs''
   \<and> netFlow (calculateWaterLevelTrend
        (Some \<lparr>date = None, time = None, waterLevel = None,
               inflow = Some ''1234.5 cfs'', totalOutflow = None\<rparr>)
        \<lparr>redLevel = None, orangeLevel = None, blueLevel = None\<rparr> None) =
      Some (js_sub (parseNumber (Some ''1234.5 cfs'')) (parseNumber None))"
proof -
  let ?c = "\<lparr>date = None, time = None, waterLevel = None,
               inflow = Some ''1234.5 cfs'', totalOutflow = None\<rparr>"
  let ?d = "\<lparr>redLevel = None, orangeLevel = None, blueLevel = None\<rparr>"
  have a: "cleaned ''1234.5 cfs'' = ''1234.5 cfs''" by code_simp
  then have prem: "(\<forall>s. inflow ?c = Some s \<longrightarrow> cleaned s = s)
        \<and> (\<forall>s. totalOutflow ?c = Some s \<longrightarrow> cleaned s = s)"
    by simp
  have sel: "inflow ?c = Some ''1234.5 cfs''" "totalOutflow ?c = None"
    by simp_all
  from prem netFlow_plain_parseFloat [of ?c ?d None]
  have "netFlow (calculateWaterLevelTrend (Some ?c) ?d None) =
        Some (js_sub (parseNumber (inflow ?c)) (parseNumber (totalOutflow ?c)))"
    by blast
  then show ?thesis
    unfolding sel using a by blast
qed

text \<open>
  Claim C5 as stated fails: a comma-grouped inflow \<^verbatim>\<open>1,234\<close> contributes 1 to the
  net flow, where \<open>parseNumber\<close> reads 1234.
\<close>

theorem netFlow_comma_counterexample:
  "netFlow (calculateWaterLevelTrend
        (Some \<lparr>date = None, time = None, waterLevel = None,
               inflow = Some ''1,234'', totalOutflow = Some ''0''\<rparr>)
        \<lparr>redLevel = None, orangeLevel = None, blueLevel = None\<rparr> None) = Some (Fin 1)
   \<and> js_sub (parseNumber (Some ''1,234'')) (parseNumber (Some ''0'')) = Fin 1234"
  by code_simp

subsection \<open>The trend estimator: rate and classification\<close>











subsection \<open>The axis domain\<close>

text \<open>
  The entries that survive the filter, and the least and greatest of finite entries.
\<close>

lemma validData_filter:
  "validData data = map the (filter (\<lambda>e. e \<noteq> None \<and> e \<noteq> Some NaN) data)"
  unfolding validData_def
  by (induction data) (auto simp add: isNaN_iff split: option.splits)

lemma validData_idem:
  "validData (filter (\<lambda>e. e \<noteq> None \<and> e \<noteq> Some NaN) data) = validData data"
  by (simp add: validData_filter)

lemma foldl_min_Fin:
  "foldl (\<lambda>lowest x. if js_lt x lowest then x else lowest) (Fin a) (map Fin qs) = Fin (fold min qs a)"
  by (induction qs arbitrary: a) (auto simp add: min_def)

lemma foldl_max_Fin:
  "foldl (\<lambda>highest x. if js_gt x highest then x else highest) (Fin a) (map Fin qs) = Fin (fold max qs a)"
  by (induction qs arbitrary: a) (auto simp add: max_def js_gt_def)

lemma js_gt_NegInf: "js_gt (Fin q) NegInf"
  by (simp add: js_gt_def)

lemma mathMin_Fin: "qs \<noteq> [] \<Longrightarrow> mathMin (map Fin qs) = Fin (Min (set qs))"
proof (cases qs)
  case Nil
  assume "qs \<noteq> []" with Nil show ?thesis by simp
next
  case (Cons q rest)
  have "\<not> list_ex isNaN (map Fin qs)"
    by (simp add: list_ex_iff)
  then have "mathMin (map Fin qs) = Fin (fold min rest q)"
    using Cons by (simp add: mathMin_def foldl_min_Fin)
  also have "fold min rest q = Min (set qs)"
    using Cons Min.set_eq_fold [of q rest] by simp
  finally show ?thesis .
qed

lemma mathMax_Fin: "qs \<noteq> [] \<Longrightarrow> mathMax (map Fin qs) = Fin (Max (set qs))"
proof (cases qs)
  case Nil
  assume "qs \<noteq> []" with Nil show ?thesis by simp
next
  case (Cons q rest)
  have "\<not> list_ex isNaN (map Fin qs)"
    by (simp add: list_ex_iff)
  then have "mathMax (map Fin qs) = Fin (fold max rest q)"
    using Cons by (simp add: mathMax_def foldl_max_Fin js_gt_NegInf)
  also have "fold max rest q = Max (set qs)"
    using Cons Max.set_eq_fold [of q rest] by simp
  finally show ?thesis .
qed

lemma domain_spread:
  assumes "validData data = map Fin qs" "qs \<noteq> []" "Min (set qs) \<noteq> Max (set qs)"
  shows "calculateAxisDomain data =
           (Fin (Min (set qs) - 5 / 100 * (Max (set qs) - Min (set qs))),
            Fin (Max (set qs) + 5 / 100 * (Max (set qs) - Min (set qs))))"
  using assms
  by (simp add: calculateAxisDomain_def Let_def mathMin_Fin mathMax_Fin js_eq_def js_sub_def)

lemma domain_flat:
  assumes "validData data = map Fin qs" "qs \<noteq> []" "set qs = {v}"
  shows "calculateAxisDomain data = (Fin (v * (9 / 10)), Fin (v * (11 / 10)))"
  using assms
  by (simp add: calculateAxisDomain_def Let_def mathMin_Fin mathMax_Fin js_eq_def)


lemma domain_depends_on_valid:
  "validData a = validData b \<Longrightarrow> calculateAxisDomain a = calculateAxisDomain b"
  by (simp add: calculateAxisDomain_def)

text \<open>
  Claim C4, as amended. \<open>calculateAxisDomain\<close> first drops the entries that are
  undefined or NaN, and only those. If nothing remains the domain is \<open>[0, 100]\<close>; if
  the remaining values are finite with least value \<open>min\<close> different from the greatest
  value \<open>max\<close>, the domain is \<open>[min - p, max + p]\<close> with \<open>p = 0.05 (max - min)\<close>.
  The empty list gives \<open>[0, 100]\<close>, the list 5, 5, 5 gives \<open>[4.5, 5.5]\<close> and the
  list 1, 2, 3, 4, 10 gives \<open>[0.55, 10.45]\<close>.
\<close>

theorem calculateAxisDomain_pads:
  "calculateAxisDomain data =
     calculateAxisDomain (filter (\<lambda>e. e \<noteq> None \<and> e \<noteq> Some NaN) data)
   \<and> (validData data = [] \<longrightarrow> calculateAxisDomain data = (Fin 0, Fin 100))
   \<and> (validData data = map Fin qs \<and> qs \<noteq> [] \<and> Min (set qs) \<noteq> Max (set qs) \<longrightarrow>
        calculateAxisDomain data =
          (Fin (Min (set qs) - 5 / 100 * (Max (set qs) - Min (set qs))),
           Fin (Max (set qs) + 5 / 100 * (Max (set qs) - Min (set qs)))))
   \<and> calculateAxisDomain [] = (Fin 0, Fin 100)
   \<and> calculateAxisDomain [Some (Fin 5), Some (Fin 5), Some (Fin 5)] = (Fin (45 / 10), Fin (55 / 10))
   \<and> calculateAxisDomain [Some (Fin 1), Some (Fin 2), Some (Fin 3), Some (Fin 4), Some (Fin 10)] =
        (Fin (55 / 100), Fin (1045 / 100))"
proof -
  have a: "calculateAxisDomain data =
     calculateAxisDomain (filter (\<lambda>e. e \<noteq> None \<and> e \<noteq> Some NaN) data)"
    by (rule domain_depends_on_valid) (rule validData_idem [symmetric])
  have b: "validData data = [] \<longrightarrow> calculateAxisDomain data = (Fin 0, Fin 100)"
    by (simp add: calculateAxisDomain_def)
  have c: "validData data = map Fin qs \<and> qs \<noteq> [] \<and> Min (set qs) \<noteq> Max (set qs) \<longrightarrow>
        calculateAxisDomain data =
          (Fin (Min (set qs) - 5 / 100 * (Max (set qs) - Min (set qs))),
           Fin (Max (set qs) + 5 / 100 * (Max (set qs) - Min (set qs))))"
    using domain_spread [of data qs] by blast
  have d: "calculateAxisDomain [] = (Fin 0, Fin 100)"
    by (simp add: calculateAxisDomain_def validData_def)
  have e: "calculateAxisDomain [Some (Fin 5), Some (Fin 5), Some (Fin 5)] = (Fin (45 / 10), Fin (55 / 10))"
    using domain_flat [of "[Some (Fin 5), Some (Fin 5), Some (Fin 5)]" "[5, 5, 5]" 5]
    by (simp add: validData_def)
  have f: "calculateAxisDomain [Some (Fin 1), Some (Fin 2), Some (Fin 3), Some (Fin 4), Some (Fin 10)] =
        (Fin (55 / 100), Fin (1045 / 100))"
    using domain_spread [of "[Some (Fin 1), Some (Fin 2), Some (Fin 3), Some (Fin 4), Some (Fin 10)]"
        "[1, 2, 3, 4, 10]"]
    by (simp add: validData_def)
  from a b c d e f show ?thesis by blast
qed

theorem calculateAxisDomain_pads_witness:
  "validData [Some NaN, None] = []
   \<and> calculateAxisDomain [Some NaN, None] = (Fin 0, Fin 100)
   \<and> validData [Some (Fin 2), Some NaN, Some (Fin 6), None] = map Fin [2, 6]
   \<and> Min (set [2, 6 :: rat]) \<noteq> Max (set [2, 6])
   \<and> calculateAxisDomain [Some (Fin 2), Some NaN, Some (Fin 6), None] = (Fin (18 / 10), Fin (62 / 10))"
proof -
  have a: "validData [Some NaN, None] = []"
    by (simp add: validData_def)
  have b: "validData [Some (Fin 2), Some NaN, Some (Fin 6), None] = map Fin [2, 6]"
    by (simp add: validData_def)
  have c: "Min (set [2, 6 :: rat]) \<noteq> Max (set [2, 6])" "[2, 6 :: rat] \<noteq> []"
    by simp_all
  from a calculateAxisDomain_pads [of "[Some NaN, None]"]
  have r1: "calculateAxisDomain [Some NaN, None] = (Fin 0, Fin 100)"
    by blast
  from b c calculateAxisDomain_pads [of "[Some (Fin 2), Some NaN, Some (Fin 6), None]" "[2, 6]"]
  have "calculateAxisDomain [Some (Fin 2), Some NaN, Some (Fin 6), None] =
          (Fin (Min (set [2, 6]) - 5 / 100 * (Max (set [2, 6]) - Min (set [2, 6]))),
           Fin (Max (set [2, 6]) + 5 / 100 * (Max (set [2, 6]) - Min (set [2, 6]))))"
    by blast
  then have r2: "calculateAxisDomain [Some (Fin 2), Some NaN, Some (Fin 6), None] = (Fin (18 / 10), Fin (62 / 10))"
    by simp
  from a b c r1 r2 show ?thesis by blast
qed

text \<open>
  Claim C4 as stated fails: an infinite entry passes the filter, so the list 1,
  \<open>+\<infinity>\<close> has the domain \<open>[-\<infinity>, +\<infinity>]\<close>, not the domain \<open>[0.9, 1.1]\<close> of
  its finite entries.
\<close>

theorem calculateAxisDomain_infinity_counterexample:
  "calculateAxisDomain [Some (Fin 1), Some PosInf] = (NegInf, PosInf)
   \<and> calculateAxisDomain [Some (Fin 1)] = (Fin (9 / 10), Fin (11 / 10))"
  by (simp add: calculateAxisDomain_def validData_def mathMin_def mathMax_def js_gt_def
      js_eq_def js_sub_def signedInf_def)




subsection \<open>Dates, the clock and the sort\<close>

text \<open>
  A parsed date is NaN or finite, the body of \<^verbatim>\<open>parseDateTime\<close> never raises, and
  the clock is read only when the date string is absent or empty.
\<close>

lemma timeClip_cases: "timeClip x = NaN \<or> isFinite (timeClip x)"
  by (cases x) simp_all

lemma setHours_cases: "setHours h d a b e f = NaN \<or> isFinite (setHours h d a b e f)"
  by (cases d) (simp_all add: timeClip_cases)

lemma parseDateTimeBody_returns:
  "\<exists>t. parseDateTimeBody h s ts = Inr t \<and> (t = NaN \<or> isFinite t)"
  by (simp add: parseDateTimeBody_def Let_def newDate_def timeClip_cases setHours_cases)


lemma parseDateTimeBody_clock: "parseDateTimeBody (h\<lparr>clock := k\<rparr>) s ts = parseDateTimeBody h s ts"
proof -
  have u: "\<And>x. utc (h\<lparr>clock := k\<rparr>) x = utc h x"
    subgoal for x by (cases x) simp_all
    done
  have n: "\<And>y m d. newDate (h\<lparr>clock := k\<rparr>) y m d = newDate h y m d"
    by (simp add: newDate_def u)
  have s: "\<And>d a b e f. setHours (h\<lparr>clock := k\<rparr>) d a b e f = setHours h d a b e f"
    subgoal for d a b e f by (cases d) (simp_all add: u localTime_def)
    done
  show ?thesis
    by (simp add: parseDateTimeBody_def n s Let_def)
qed

lemma parseDateTime_clock:
  "truthy d \<Longrightarrow> parseDateTime (h\<lparr>clock := k\<rparr>) d t = parseDateTime h d t"
  using parseDateTimeBody_returns [of h "toString d" t]
  by (auto simp add: parseDateTime_def parseDateTimeBody_clock)




lemma set_insertBy: "set (insertBy cmp x xs) = insert x (set xs)"
  by (induction xs) auto

lemma set_sortBy: "set (sortBy cmp xs) = set xs"
  by (induction xs) (simp_all add: sortBy_def set_insertBy)

lemma insertBy_cong:
  "(\<And>y. y \<in> set xs \<Longrightarrow> f x y = g x y) \<Longrightarrow> insertBy f x xs = insertBy g x xs"
  by (induction xs) auto

lemma sortBy_cong:
  "(\<And>x y. x \<in> set xs \<Longrightarrow> y \<in> set xs \<Longrightarrow> f x y = g x y) \<Longrightarrow> sortBy f xs = sortBy g xs"
proof (induction xs)
  case Nil
  then show ?case by (simp add: sortBy_def)
next
  case (Cons a xs)
  then have ih: "sortBy f xs = sortBy g xs" by simp
  have "insertBy f a (sortBy g xs) = insertBy g a (sortBy g xs)"
    by (rule insertBy_cong) (simp add: set_sortBy Cons.prems)
  with ih show ?case by (simp add: sortBy_def)
qed




lemma itemDate_clock:
  "truthy (date item) \<Longrightarrow> itemDate (h\<lparr>clock := k\<rparr>) item = itemDate h item"
  by (simp add: itemDate_def parseDateTime_clock)

lemma filtered_Nil: "filtered h [] s e = []"
  by (simp add: filtered_def)

lemma filtered_Cons:
  "filtered h (x # data) s e =
     (case x of
        None \<Rightarrow> filtered h data s e
      | Some item \<Rightarrow>
          if truthy (date item) \<and> isWithinInterval (itemDate h item) s e
          then item # filtered h data s e else filtered h data s e)"
  by (simp add: filtered_def split: option.splits)

lemma filtered_truthy: "item \<in> set (filtered h data s e) \<Longrightarrow> truthy (date item)"
  by (induction data) (auto simp add: filtered_Nil filtered_Cons split: option.splits if_splits)


lemma filtered_clock: "filtered (h\<lparr>clock := k\<rparr>) data s e = filtered h data s e"
  by (induction data) (auto simp add: filtered_Nil filtered_Cons itemDate_clock split: option.splits)





subsection \<open>The range filter\<close>



subsection \<open>Determinism\<close>

text \<open>
  Claim C9, as amended. The only state outside the arguments is the host: its clock and
  its time zone. \<^verbatim>\<open>parseNumber\<close>, \<^verbatim>\<open>calculateAxisDomain\<close>,
  \<^verbatim>\<open>calculateWaterLevelTrend\<close> and \<^verbatim>\<open>getAlertZone\<close> do not take the host:
  they are functions of their arguments alone. \<^verbatim>\<open>parseDateTime\<close> on a date string
  that is present and not empty, malformed ones included, and \<^verbatim>\<open>filteredData\<close> on
  any input yield the same result whatever the clock reads.
\<close>

theorem pipeline_independent_of_clock:
  "(truthy d \<longrightarrow> parseDateTime (h\<lparr>clock := k\<rparr>) d t = parseDateTime h d t)
   \<and> filteredData (h\<lparr>clock := k\<rparr>) data rng referenceDate = filteredData h data rng referenceDate"
proof -
  have a: "truthy d \<longrightarrow> parseDateTime (h\<lparr>clock := k\<rparr>) d t = parseDateTime h d t"
    by (simp add: parseDateTime_clock)
  have "sortBy (\<lambda>a b. js_sub (itemDate (h\<lparr>clock := k\<rparr>) a) (itemDate (h\<lparr>clock := k\<rparr>) b))
          (filtered h xs s e)
        = sortBy (\<lambda>a b. js_sub (itemDate h a) (itemDate h b)) (filtered h xs s e)" for xs s e
    by (rule sortBy_cong) (simp add: itemDate_clock filtered_truthy)
  then have b: "filteredData (h\<lparr>clock := k\<rparr>) data rng referenceDate
                  = filteredData h data rng referenceDate"
    by (simp add: filteredData_def filtered_clock split: option.splits)
  from a b show ?thesis by blast
qed

theorem pipeline_independent_of_clock_witness:
  "truthy (Some ''bad'')
   \<and> parseDateTime (\<lparr>clock = 1000, localTZA = utcZone\<rparr>\<lparr>clock := 2000\<rparr>) (Some ''bad'') None
       = parseDateTime \<lparr>clock = 1000, localTZA = utcZone\<rparr> (Some ''bad'') None"
proof -
  have a: "truthy (Some ''bad'')" by (simp add: truthy_def)
  with pipeline_independent_of_clock
         [where d = "Some ''bad''" and h = "\<lparr>clock = 1000, localTZA = utcZone\<rparr>"
            and k = 2000 and t = None]
  show ?thesis by blast
qed

text \<open>
  Claim C9 as stated fails: on the empty date string \<^verbatim>\<open>parseDateTime\<close> returns the
  reading of the clock, so two runs on the same input at different moments differ.
\<close>

theorem parseDateTime_clock_counterexample:
  "parseDateTime \<lparr>clock = 1000, localTZA = utcZone\<rparr> (Some '''') None = Fin 1000
   \<and> parseDateTime \<lparr>clock = 2000, localTZA = utcZone\<rparr> (Some '''') None = Fin 2000"
  by (simp add: parseDateTime_def truthy_def)

end
